theory Spec2Isabelle
  imports Main
begin

section \<open>The GraphBolt feature store (\<open>python/dgl/graphbolt/feature_store.py\<close>)\<close>

text \<open>
  \<open>TorchBasedFeatureStore\<close> keeps one Python dict, \<open>self._feature_dict\<close>, from feature
  names to torch tensors, and has two methods: \<open>read(key, ids=None)\<close> and
  \<open>update(key, value, ids=None)\<close>. The dict holds \<^emph>\<open>references\<close> to tensor objects:
  \<open>read\<close> without \<open>ids\<close> hands the stored object out, \<open>update\<close> without \<open>ids\<close> rebinds
  the key to the object it is given, and \<open>update\<close> with \<open>ids\<close> writes into the stored
  object in place. So the model has an explicit heap of tensor objects, addressed by
  natural numbers, next to the dict; and since different tensor objects can be views
  of the same memory, every object names the memory it views.
\<close>

subsection \<open>Python objects, errors and the state\<close>

type_synonym addr = nat

text \<open>
  Keys of a Python dict as far as \<open>isinstance(k, str)\<close> can tell them apart: a string,
  or (standing for every other hashable object) an integer.
\<close>

datatype pykey = KStr string | KInt int

text \<open>
  Objects that stand as dict values and as the \<open>value\<close> argument: a reference to a
  tensor object, or a non-tensor. The non-tensors are \<open>None\<close> and the integers: neither
  has an attribute \<open>shape\<close>, neither can be subscripted.
\<close>

datatype pyval = PyTensor addr | PyNone | PyInt int

text \<open>The argument of the constructor: a dict (its items in insertion order) or not.\<close>

datatype pyobj = PyDict "(pykey \<times> pyval) list" | PyOther pyval

text \<open>
  What a call can raise. The first three are the \<open>AssertionError\<close>s of the three kinds
  of \<open>assert\<close> in the source, under the names of the specification: \<open>KeyNotFound\<close> for
  \<open>assert key in self._feature_dict\<close>, \<open>TypeMismatch\<close> for the \<open>isinstance\<close> assertions
  of \<open>__init__\<close>, \<open>ShapeMismatch\<close> for \<open>assert ids.shape[0] == value.shape[0]\<close>.
  \<open>IndexOutOfBounds\<close> is the \<open>IndexError\<close> of tensor indexing. \<open>AttributeError\<close> and
  \<open>TypeError\<close> are Python's own for \<open>.shape\<close> on, and subscripting of, a non-tensor.
  \<open>RuntimeError\<close> is torch's refusal of an indexed assignment: the value overlaps the
  destination in memory, or has another dtype, or has a shape that cannot be broadcast.
\<close>

datatype error =
  KeyNotFound | TypeMismatch | ShapeMismatch | IndexOutOfBounds
  | AttributeError | TypeError | RuntimeError

text \<open>The element types of tensors, as far as torch compares them.\<close>

datatype dtype = Int64 | Float32

text \<open>
  The state. A tensor object has its rows (its slices along the first dimension, each
  the list of its elements in row-major order), the shape of a row, a dtype, and the
  memory it views: objects with the same \<open>memory\<close> are views of the same data (the
  same storage, or mappings of the same file), and a write through one is a write to
  all of them. \<open>requires_grad\<close> marks a leaf tensor that requires a gradient, which
  torch does not let a program write in place. All tensors are dense and on one
  device, the CPU. Views of a part of a memory or under another shape, tensors of
  rank 0 and index tensors that are not 1-D integer tensors are outside the model.
  \<open>winner\<close> stands for what the program does not determine: when several positions
  of an index list refer to one row, \<open>winner j\<close> names the position whose write ends up
  in row \<open>j\<close> (torch leaves the result of an indexed assignment with duplicate
  indices undefined). \<open>fresh\<close> is the next unused address, \<open>feature_dict\<close> the dict of
  the store.
\<close>

record 'e state =
  tensors :: "addr \<Rightarrow> 'e list list"
  dtype_of :: "addr \<Rightarrow> dtype"
  row_shape :: "addr \<Rightarrow> nat list"
  requires_grad :: "addr \<Rightarrow> bool"
  memory :: "addr \<Rightarrow> nat"
  winner :: "nat \<Rightarrow> nat"
  fresh :: addr
  feature_dict :: "(pykey \<times> pyval) list"

definition allocated :: "'e state \<Rightarrow> addr \<Rightarrow> bool" where
  "allocated s a = (a < fresh s)"

text \<open>A memory that no allocated tensor object views.\<close>

definition new_memory :: "'e state \<Rightarrow> nat" where
  "new_memory s = Suc (foldr max (map (memory s) [0..<fresh s]) 0)"

text \<open>
  A new tensor object with the given rows, in memory of its own, with the dtype and
  the row shape of the tensor \<open>a\<close> it was gathered from; it is not a leaf that
  requires a gradient.
\<close>

definition new_tensor :: "'e state \<Rightarrow> addr \<Rightarrow> 'e list list \<Rightarrow> pyval \<times> 'e state" where
  "new_tensor s a rows =
     (PyTensor (fresh s),
      s\<lparr>tensors := (tensors s)(fresh s := rows),
        dtype_of := (dtype_of s)(fresh s := dtype_of s a),
        row_shape := (row_shape s)(fresh s := row_shape s a),
        requires_grad := (requires_grad s)(fresh s := False),
        memory := (memory s)(fresh s := new_memory s),
        fresh := Suc (fresh s)\<rparr>)"

subsection \<open>The dict\<close>

text \<open>\<open>key in d\<close> and \<open>d[key]\<close> are \<open>map_of d key\<close>; \<open>d[key] = v\<close> is \<open>dict_setitem\<close>.\<close>

fun dict_setitem :: "('k \<times> 'v) list \<Rightarrow> 'k \<Rightarrow> 'v \<Rightarrow> ('k \<times> 'v) list" where
  "dict_setitem [] k v = [(k, v)]"
| "dict_setitem ((k', v') # d) k v =
     (if k' = k then (k, v) # d else (k', v') # dict_setitem d k v)"

definition lookup :: "'e state \<Rightarrow> string \<Rightarrow> pyval option" where
  "lookup s key = map_of (feature_dict s) (KStr key)"

definition keys :: "'e state \<Rightarrow> pykey set" where
  "keys s = fst ` set (feature_dict s)"

subsection \<open>Tensor indexing\<close>

text \<open>
  An index \<open>i\<close> into \<open>n\<close> rows is in range when \<open>-n \<le> i < n\<close>; a negative index counts
  from the end, as everywhere in Python and torch.
\<close>

definition in_range :: "nat \<Rightarrow> int \<Rightarrow> bool" where
  "in_range n i = (- int n \<le> i \<and> i < int n)"

definition row_of :: "nat \<Rightarrow> int \<Rightarrow> nat" where
  "row_of n i = nat (if i < 0 then i + int n else i)"

text \<open>
  Modelled from the spec: torch's \<open>tensor[ids]\<close> for a 1-D integer tensor \<open>ids\<close>, which
  is not in the source. It gives the rows at those indices, in the given order,
  duplicates allowed, and fails with \<open>IndexOutOfBounds\<close> on an index out of range.
\<close>

fun index_rows :: "'r list \<Rightarrow> int list \<Rightarrow> error + 'r list" where
  "index_rows rows [] = Inr []"
| "index_rows rows (i # ids) =
     (if in_range (length rows) i
      then (case index_rows rows ids of
              Inl e \<Rightarrow> Inl e
            | Inr out \<Rightarrow> Inr (rows ! row_of (length rows) i # out))
      else Inl IndexOutOfBounds)"

text \<open>
  torch's \<open>tensor[ids] = value\<close>, which is not in the source, in three steps.

  The write itself, for in-range indices. \<open>writers n ids j\<close> are the positions of \<open>ids\<close>
  that refer to row \<open>j\<close>. A row without a writer keeps its content; a row with one
  writer \<open>p\<close> gets row \<open>p\<close> of the value; a row with several writers gets the row of
  the value at one of them, the one \<open>w j\<close> names (the last one when \<open>w j\<close> is not among
  them): the writes run in parallel and torch does not say which comes last.
\<close>

definition writers :: "nat \<Rightarrow> int list \<Rightarrow> nat \<Rightarrow> nat list" where
  "writers n ids j = filter (\<lambda>p. row_of n (ids ! p) = j) [0..<length ids]"

definition scatter :: "(nat \<Rightarrow> nat) \<Rightarrow> 'r list \<Rightarrow> int list \<Rightarrow> 'r list \<Rightarrow> 'r list" where
  "scatter w rows ids vs =
     map (\<lambda>j. case writers (length rows) ids j of
                 [] \<Rightarrow> rows ! j
               | p # ps \<Rightarrow> vs ! (if w j \<in> set (p # ps) then w j else last (p # ps)))
         [0..<length rows]"

text \<open>
  An index out of range raises \<open>IndexOutOfBounds\<close>; the rows for the indices before
  the first such index are written by then.
\<close>

definition index_put ::
  "(nat \<Rightarrow> nat) \<Rightarrow> 'r list \<Rightarrow> int list \<Rightarrow> 'r list \<Rightarrow> error option \<times> 'r list" where
  "index_put w rows ids vs =
     (let good = takeWhile (in_range (length rows)) ids
      in (if length good = length ids then None else Some IndexOutOfBounds,
          scatter w rows good vs))"

text \<open>
  Broadcasting of the value to the shape of the indexed rows. \<open>expand v t xs\<close> expands
  data \<open>xs\<close> of shape \<open>v\<close> to the shape \<open>t\<close> of the same rank: a dimension of size 1 is
  repeated, any other must agree. \<open>broadcast\<close> first drops the leading dimensions of
  size 1 of the value's shape and aligns what is left with the end of \<open>t\<close>.
\<close>

fun expand :: "nat list \<Rightarrow> nat list \<Rightarrow> 'e list \<Rightarrow> 'e list option" where
  "expand [] [] xs = Some xs"
| "expand (v # vs) (d # ds) xs =
     (if v = d then
        (if list_all (\<lambda>c. expand vs ds (take (prod_list vs) (drop (c * prod_list vs) xs)) \<noteq> None)
              [0..<v]
         then Some (concat (map (\<lambda>c. the (expand vs ds (take (prod_list vs)
                                                      (drop (c * prod_list vs) xs))))
                               [0..<v]))
         else None)
      else if v = 1 then
        (case expand vs ds xs of None \<Rightarrow> None | Some ys \<Rightarrow> Some (concat (replicate d ys)))
      else None)"
| "expand _ _ _ = None"

definition broadcast :: "nat list \<Rightarrow> nat list \<Rightarrow> 'e list \<Rightarrow> 'e list option" where
  "broadcast v t xs =
     (let v' = dropWhile (\<lambda>d. d = 1) v
      in if length t < length v' then None
         else expand (replicate (length t - length v') 1 @ v') t xs)"

definition chunks :: "nat \<Rightarrow> nat \<Rightarrow> 'e list \<Rightarrow> 'e list list" where
  "chunks n m xs = map (\<lambda>c. take n (drop (c * n) xs)) [0..<m]"

text \<open>
  The rows that \<open>tensor_a[ids] = tensor_b\<close> writes: the rows of \<open>b\<close> when \<open>b\<close> has the row
  shape of \<open>a\<close> (by then \<open>b\<close> has as many rows as \<open>ids\<close> has entries), else \<open>b\<close> broadcast
  to one row of the shape of \<open>a\<close>'s for each entry of \<open>ids\<close>, if that can be done.
\<close>

definition value_rows :: "'e state \<Rightarrow> addr \<Rightarrow> int list \<Rightarrow> addr \<Rightarrow> 'e list list option" where
  "value_rows s a ids b =
     (if row_shape s b = row_shape s a then Some (tensors s b)
      else (case broadcast (length (tensors s b) # row_shape s b)
                           (length ids # row_shape s a) (concat (tensors s b)) of
              None \<Rightarrow> None
            | Some xs \<Rightarrow> Some (chunks (prod_list (row_shape s a)) (length ids) xs)))"

text \<open>
  torch refuses to write a tensor into itself, and into a view of the memory it is
  read from unless one of the two has no elements. (It compares storages; two mappings
  of one file it would not recognise, and what it writes then is not modelled.)
\<close>

definition overlap :: "'e state \<Rightarrow> addr \<Rightarrow> addr \<Rightarrow> bool" where
  "overlap s a b =
     (a = b \<or> (memory s a = memory s b \<and> concat (tensors s a) \<noteq> [] \<and> concat (tensors s b) \<noteq> []))"

text \<open>Writing rows to the tensor \<open>a\<close> writes them to every view of its memory.\<close>

definition write_rows :: "'e state \<Rightarrow> addr \<Rightarrow> 'e list list \<Rightarrow> 'e state" where
  "write_rows s a rows =
     s\<lparr>tensors := (\<lambda>a'. if memory s a' = memory s a then rows else tensors s a')\<rparr>"


text \<open>\<open>x[ids]\<close> for an object \<open>x\<close>: a new tensor object, or \<open>TypeError\<close> for a non-tensor.\<close>

definition getitem :: "'e state \<Rightarrow> pyval \<Rightarrow> int list \<Rightarrow> error + pyval \<times> 'e state" where
  "getitem s x ids =
     (case x of
        PyTensor a \<Rightarrow>
          (case index_rows (tensors s a) ids of
             Inl e \<Rightarrow> Inl e
           | Inr rows \<Rightarrow> Inr (new_tensor s a rows))
      | _ \<Rightarrow> Inl TypeError)"

text \<open>
  \<open>x[ids] = val\<close> for an object \<open>x\<close> and a tensor \<open>val\<close> at address \<open>b\<close>: the tensor
  object \<open>x\<close> is written in place. A non-tensor \<open>x\<close> supports no item assignment. torch
  checks that \<open>x\<close> may be written in place, and overlap, shape and dtype of the value,
  before it writes anything.
\<close>

definition setitem :: "'e state \<Rightarrow> pyval \<Rightarrow> int list \<Rightarrow> addr \<Rightarrow> (error + unit) \<times> 'e state" where
  "setitem s x ids b =
     (case x of
        PyTensor a \<Rightarrow>
          (if requires_grad s a \<or> overlap s a b then (Inl RuntimeError, s)
           else (case value_rows s a ids b of
                   None \<Rightarrow> (Inl RuntimeError, s)
                 | Some vs \<Rightarrow>
                     if dtype_of s b \<noteq> dtype_of s a then (Inl RuntimeError, s)
                     else (case index_put (winner s) (tensors s a) ids vs of
                             (None, rows) \<Rightarrow> (Inr (), write_rows s a rows)
                           | (Some e, rows) \<Rightarrow> (Inl e, write_rows s a rows))))
      | _ \<Rightarrow> (Inl TypeError, s))"

subsection \<open>\<open>TorchBasedFeatureStore\<close>\<close>

text \<open>
  \<open>__init__\<close>: the argument must be a dict, every key a \<open>str\<close>, every value a tensor.
  \<open>is_str k\<close> is \<open>isinstance(k, str)\<close>, \<open>is_tensor v\<close> is \<open>isinstance(v, torch.Tensor)\<close>.
  \<open>check_items\<close> is the loop over \<open>feature_dict.items()\<close>, which asserts the key and then
  the value of each item in turn. The result is what is assigned to
  \<open>self._feature_dict\<close>: the dict itself.
\<close>

definition is_str :: "pykey \<Rightarrow> bool" where
  "is_str k = (case k of KStr _ \<Rightarrow> True | _ \<Rightarrow> False)"

definition is_tensor :: "pyval \<Rightarrow> bool" where
  "is_tensor v = (case v of PyTensor _ \<Rightarrow> True | _ \<Rightarrow> False)"

fun check_items :: "(pykey \<times> pyval) list \<Rightarrow> error + unit" where
  "check_items [] = Inr ()"
| "check_items ((k, v) # kvs) =
     (if \<not> is_str k then Inl TypeMismatch
      else if \<not> is_tensor v then Inl TypeMismatch
      else check_items kvs)"

definition init :: "pyobj \<Rightarrow> error + (pykey \<times> pyval) list" where
  "init arg =
     (case arg of
        PyOther _ \<Rightarrow> Inl TypeMismatch
      | PyDict kvs \<Rightarrow> (case check_items kvs of Inl e \<Rightarrow> Inl e | Inr _ \<Rightarrow> Inr kvs))"

text \<open>
  \<open>read(key, ids)\<close>: the result or the error raised, and the state after the call
  (an indexed read allocates the tensor it returns).
\<close>

definition read :: "'e state \<Rightarrow> string \<Rightarrow> int list option \<Rightarrow> (error + pyval) \<times> 'e state" where
  "read s key ids =
     (case lookup s key of
        None \<Rightarrow> (Inl KeyNotFound, s)
      | Some x \<Rightarrow>
          (case ids of
             None \<Rightarrow> (Inr x, s)
           | Some is \<Rightarrow>
               (case getitem s x is of
                  Inl e \<Rightarrow> (Inl e, s)
                | Inr (r, s') \<Rightarrow> (Inr r, s'))))"

text \<open>
  \<open>update(key, value, ids)\<close>: \<open>Inr ()\<close> for a normal return or the error raised, and
  the state after the call. With \<open>ids\<close>, \<open>ids.shape[0] == value.shape[0]\<close> is evaluated
  (a non-tensor \<open>value\<close> has no attribute \<open>shape\<close>) and asserted before
  \<open>self._feature_dict[key][ids] = value\<close> runs.
\<close>

definition update :: "'e state \<Rightarrow> string \<Rightarrow> pyval \<Rightarrow> int list option \<Rightarrow> (error + unit) \<times> 'e state" where
  "update s key val ids =
     (case lookup s key of
        None \<Rightarrow> (Inl KeyNotFound, s)
      | Some x \<Rightarrow>
          (case ids of
             None \<Rightarrow>
               (Inr (), s\<lparr>feature_dict := dict_setitem (feature_dict s) (KStr key) val\<rparr>)
           | Some is \<Rightarrow>
               (case val of
                  PyTensor b \<Rightarrow>
                    if length is \<noteq> length (tensors s b) then (Inl ShapeMismatch, s)
                    else setitem s x is b
                | _ \<Rightarrow> (Inl AttributeError, s))))"

text \<open>The invariant that \<open>__init__\<close> checks: every value of the dict is a tensor.\<close>

definition values_are_tensors :: "'e state \<Rightarrow> bool" where
  "values_are_tensors s = list_all (\<lambda>kv. is_tensor (snd kv)) (feature_dict s)"

subsection \<open>The example of the docstring\<close>

text \<open>
  \<open>{"user": torch.arange(0, 5), "item": torch.arange(0, 6),
  "rel": torch.arange(0, 6).view(2, 3)}\<close> at the addresses 0, 1 and 5, with
  \<open>torch.ones(3, dtype=torch.long)\<close> at 2 and more tensors beside them: \<open>[9]\<close> at 3,
  \<open>[1, 2]\<close> at 4, a float tensor \<open>[7.]\<close> at 6, \<open>torch.arange(1, 4097)\<close> at 7 and a
  leaf \<open>[0., 0.]\<close> that requires a gradient at 8, under the key \<open>"emb"\<close>. Every tensor has memory of its own. \<open>arange m n\<close> are the rows of
  \<open>torch.arange(m, n)\<close>. Of several writes to one row, the one at position 2047 of the
  index list comes last if there is one, else the last.
\<close>

definition arange :: "nat \<Rightarrow> nat \<Rightarrow> int list list" where
  "arange m n = map (\<lambda>i. [int i]) [m..<n]"

definition example_store :: "int state" where
  "example_store =
     \<lparr>tensors = (\<lambda>_. [])(0 := [[0], [1], [2], [3], [4]],
                  1 := [[0], [1], [2], [3], [4], [5]],
                  2 := [[1], [1], [1]], 3 := [[9]], 4 := [[1], [2]],
                  5 := [[0, 1, 2], [3, 4, 5]], 6 := [[7]],
                  7 := arange 1 4097, 8 := [[0], [0]]),
      dtype_of = (\<lambda>_. Int64)(6 := Float32, 8 := Float32),
      row_shape = (\<lambda>_. [])(5 := [3]),
      requires_grad = (\<lambda>_. False)(8 := True),
      memory = (\<lambda>a. a),
      winner = (\<lambda>_. 2047),
      fresh = 9,
      feature_dict =
        [(KStr ''user'', PyTensor 0), (KStr ''item'', PyTensor 1), (KStr ''rel'', PyTensor 5),
         (KStr ''emb'', PyTensor 8)]\<rparr>"

text \<open>
  A store in which \<open>"a"\<close> and \<open>"b"\<close> hold the same tensor object and \<open>"c"\<close> holds another
  object that is a view of the same memory.
\<close>

definition shared_store :: "int state" where
  "shared_store =
     \<lparr>tensors = (\<lambda>_. [])(0 := [[0], [1], [2], [3], [4]], 1 := [[9], [9], [9]],
                  2 := [[0], [1], [2], [3], [4]]),
      dtype_of = (\<lambda>_. Int64),
      row_shape = (\<lambda>_. []),
      requires_grad = (\<lambda>_. False),
      memory = (\<lambda>a. a)(2 := 0),
      winner = (\<lambda>_. 0),
      fresh = 3,
      feature_dict =
        [(KStr ''a'', PyTensor 0), (KStr ''b'', PyTensor 0), (KStr ''c'', PyTensor 2)]\<rparr>"

section \<open>Helper lemmas\<close>

lemma map_of_dict_setitem: "map_of (dict_setitem d k v) = (map_of d)(k \<mapsto> v)"
  by (induction d) (auto simp: fun_eq_iff)

lemma fst_dict_setitem: "fst ` set (dict_setitem d k v) = insert k (fst ` set d)"
  by (induction d k v rule: dict_setitem.induct) auto

lemma lookup_None_iff: "lookup s k = None \<longleftrightarrow> KStr k \<notin> keys s"
  by (simp add: lookup_def keys_def map_of_eq_None_iff)


lemma index_rows_ok:
  "list_all (in_range (length rows)) ids \<Longrightarrow>
   index_rows rows ids = Inr (map (\<lambda>i. rows ! row_of (length rows) i) ids)"
  by (induction ids) auto

lemma index_rows_fail:
  "\<not> list_all (in_range (length rows)) ids \<Longrightarrow> index_rows rows ids = Inl IndexOutOfBounds"
  by (induction ids) (auto split: sum.splits)

lemma foldr_max_ge: "x \<in> set xs \<Longrightarrow> x \<le> foldr max xs (c::nat)"
  by (induction xs) auto

lemma new_memory_fresh: "a < fresh s \<Longrightarrow> memory s a < new_memory s"
proof -
  assume "a < fresh s"
  then have "memory s a \<in> set (map (memory s) [0..<fresh s])" by simp
  then have "memory s a \<le> foldr max (map (memory s) [0..<fresh s]) 0" by (rule foldr_max_ge)
  then show ?thesis by (simp add: new_memory_def)
qed

lemma set_writers: "set (writers n ids j) = {p. p < length ids \<and> row_of n (ids ! p) = j}"
  by (auto simp: writers_def)


lemma scatter_untouched:
  assumes "j < length rows" and "\<forall>i \<in> set ids. row_of (length rows) i \<noteq> j"
  shows "scatter w rows ids vs ! j = rows ! j"
proof -
  have "set (writers (length rows) ids j) = {}"
    using assms(2) by (auto simp: set_writers)
  then have "writers (length rows) ids j = []" by simp
  with assms(1) show ?thesis by (simp add: scatter_def)
qed




lemma index_put_ok:
  assumes "list_all (in_range (length rows)) ids"
  shows "index_put w rows ids vs = (None, scatter w rows ids vs)"
proof -
  have eq: "takeWhile (in_range (length rows)) ids = ids"
    using assms unfolding takeWhile_eq_all_conv list_all_iff .
  show ?thesis unfolding index_put_def Let_def eq by simp
qed

lemma index_put_error:
  "fst (index_put w rows ids vs) = None \<or> fst (index_put w rows ids vs) = Some IndexOutOfBounds"
  by (simp add: index_put_def Let_def)

subsection \<open>Facts about the methods\<close>

lemma check_items_ok:
  "check_items kvs = (if list_all (\<lambda>kv. is_str (fst kv) \<and> is_tensor (snd kv)) kvs then Inr () else Inl TypeMismatch)"
  by (induction kvs rule: check_items.induct) auto

lemma index_rows_cases:
  "index_rows rows ids = Inl IndexOutOfBounds \<or> (\<exists>out. index_rows rows ids = Inr out)"
  by (cases "list_all (in_range (length rows)) ids") (simp_all add: index_rows_ok index_rows_fail)

lemma getitem_not_KeyNotFound: "getitem s x ids \<noteq> Inl KeyNotFound"
  using index_rows_cases [of "case x of PyTensor a \<Rightarrow> tensors s a | _ \<Rightarrow> []" ids]
  by (auto simp: getitem_def split: pyval.splits sum.splits)

lemma setitem_not_KeyNotFound: "fst (setitem s x ids b) \<noteq> Inl KeyNotFound"
proof (cases x)
  case (PyTensor a)
  show ?thesis
  proof (cases "value_rows s a ids b")
    case None
    with PyTensor show ?thesis by (simp add: setitem_def)
  next
    case (Some vs)
    obtain e rows where ip: "index_put (winner s) (tensors s a) ids vs = (e, rows)"
      by (cases "index_put (winner s) (tensors s a) ids vs")
    with index_put_error [of "winner s" "tensors s a" ids vs]
    have "e = None \<or> e = Some IndexOutOfBounds" by simp
    with PyTensor Some ip show ?thesis by (auto simp: setitem_def)
  qed
qed (simp_all add: setitem_def)

lemma setitem_feature_dict: "feature_dict (snd (setitem s x ids b)) = feature_dict s"
  by (auto simp: setitem_def write_rows_def split: pyval.splits option.splits prod.splits)

lemma read_absent: "lookup s k = None \<Longrightarrow> read s k ids = (Inl KeyNotFound, s)"
  by (simp add: read_def)

lemma update_absent: "lookup s k = None \<Longrightarrow> update s k val ids = (Inl KeyNotFound, s)"
  by (simp add: update_def)

lemma read_present: "lookup s k = Some x \<Longrightarrow> fst (read s k ids) \<noteq> Inl KeyNotFound"
  using getitem_not_KeyNotFound [of s x]
  by (auto simp: read_def split: option.splits sum.splits)

lemma update_present: "lookup s k = Some x \<Longrightarrow> fst (update s k val ids) \<noteq> Inl KeyNotFound"
  using setitem_not_KeyNotFound [of s x]
  by (auto simp: update_def split: option.splits pyval.splits)

lemma read_ids_tensor:
  assumes "lookup s k = Some (PyTensor a)"
    and "list_all (in_range (length (tensors s a))) ids"
  shows "read s k (Some ids) =
           (Inr (PyTensor (fresh s)),
            snd (new_tensor s a (map (\<lambda>i. tensors s a ! row_of (length (tensors s a)) i) ids)))"
  using assms by (simp add: read_def getitem_def index_rows_ok new_tensor_def)



lemma setitem_success:
  assumes "setitem s (PyTensor a) ids b = (Inr (), s')"
  shows "\<exists>vs. s' = write_rows s a (scatter (winner s) (tensors s a) ids vs)"
proof -
  from assms obtain vs where vs: "value_rows s a ids b = Some vs"
    and ip: "index_put (winner s) (tensors s a) ids vs = (None, tensors s' a)"
    and s': "s' = write_rows s a (tensors s' a)"
    by (auto simp: setitem_def write_rows_def split: if_splits option.splits prod.splits)
  have "list_all (in_range (length (tensors s a))) ids"
  proof (rule ccontr)
    assume "\<not> list_all (in_range (length (tensors s a))) ids"
    then have "takeWhile (in_range (length (tensors s a))) ids \<noteq> ids"
      unfolding takeWhile_eq_all_conv list_all_iff .
    then have "length (takeWhile (in_range (length (tensors s a))) ids) \<noteq> length ids"
      by (metis takeWhile_eq_take take_all_iff le_refl length_takeWhile_le nat_less_le take_all)
    with ip show False by (simp add: index_put_def Let_def)
  qed
  with ip have "tensors s' a = scatter (winner s) (tensors s a) ids vs"
    by (simp add: index_put_ok)
  with s' show ?thesis by auto
qed

lemma read_keys: "keys (snd (read s k ids)) = keys s"
  by (auto simp: read_def getitem_def new_tensor_def keys_def
      split: option.splits sum.splits pyval.splits)

lemma update_keys: "keys (snd (update s k val ids)) = keys s"
proof (cases "lookup s k")
  case None
  then show ?thesis by (simp add: update_def)
next
  case (Some x)
  then have "KStr k \<in> keys s" using lookup_None_iff [of s k] by simp
  then have "insert (KStr k) (fst ` set (feature_dict s)) = fst ` set (feature_dict s)"
    by (auto simp: keys_def)
  with Some show ?thesis
    using setitem_feature_dict [of s x]
    by (auto simp: update_def keys_def fst_dict_setitem split: option.splits pyval.splits)
qed

subsection \<open>The example stores\<close>




lemma ex_fields:
  "tensors example_store 0 = [[0], [1], [2], [3], [4]]"
  "tensors example_store 2 = [[1], [1], [1]]"
  "tensors example_store 3 = [[9]]"
  "tensors example_store 4 = [[1], [2]]"
  "tensors example_store 5 = [[0, 1, 2], [3, 4, 5]]"
  "tensors example_store 6 = [[7]]"
  "tensors example_store 7 = arange 1 4097"
  "tensors example_store 8 = [[0], [0]]"
  "memory example_store = (\<lambda>a. a)"
  "dtype_of example_store = (\<lambda>_. Int64)(6 := Float32, 8 := Float32)"
  "row_shape example_store = (\<lambda>_. [])(5 := [3])"
  "requires_grad example_store = (\<lambda>_. False)(8 := True)"
  "winner example_store = (\<lambda>_. 2047)"
  "fresh example_store = 9"
  "feature_dict example_store =
     [(KStr ''user'', PyTensor 0), (KStr ''item'', PyTensor 1), (KStr ''rel'', PyTensor 5),
      (KStr ''emb'', PyTensor 8)]"
  by (simp_all add: example_store_def)

lemma ex_user: "lookup example_store ''user'' = Some (PyTensor 0)"
  by (simp add: lookup_def ex_fields)



lemma sh_fields:
  "tensors shared_store 0 = [[0], [1], [2], [3], [4]]"
  "tensors shared_store (Suc 0) = [[9], [9], [9]]"
  "tensors shared_store 2 = [[0], [1], [2], [3], [4]]"
  "memory shared_store = (\<lambda>a. a)(2 := 0)"
  "dtype_of shared_store = (\<lambda>_. Int64)"
  "requires_grad shared_store = (\<lambda>_. False)"
  "row_shape shared_store = (\<lambda>_. [])"
  "winner shared_store = (\<lambda>_. 0)"
  "fresh shared_store = 3"
  "feature_dict shared_store =
     [(KStr ''a'', PyTensor 0), (KStr ''b'', PyTensor 0), (KStr ''c'', PyTensor 2)]"
  by (simp_all add: shared_store_def)

lemma docstring_read_user:
  "fst (read example_store ''user'' (Some [0, 1, 2])) = Inr (PyTensor 9) \<and>
   tensors (snd (read example_store ''user'' (Some [0, 1, 2]))) 9 = [[0], [1], [2]]"
  by (simp add: read_def getitem_def new_tensor_def lookup_def in_range_def row_of_def ex_fields)

lemma docstring_read_item:
  "fst (read example_store ''item'' (Some [3, 4, 2])) = Inr (PyTensor 9) \<and>
   tensors (snd (read example_store ''item'' (Some [3, 4, 2]))) 9 = [[3], [4], [2]]"
  by (simp add: read_def getitem_def new_tensor_def lookup_def in_range_def row_of_def
      example_store_def)

lemma docstring_read_rel:
  "fst (read example_store ''rel'' (Some [0])) = Inr (PyTensor 9) \<and>
   tensors (snd (read example_store ''rel'' (Some [0]))) 9 = [[0, 1, 2]]"
  by (simp add: read_def getitem_def new_tensor_def lookup_def in_range_def row_of_def ex_fields)

lemma docstring_update_user:
  "update example_store ''user'' (PyTensor 2) (Some [0, 1, 2])
     = (Inr (), write_rows example_store 0 [[1], [1], [1], [3], [4]])"
  by (simp add: update_def setitem_def overlap_def value_rows_def index_put_def
      lookup_def ex_fields in_range_def scatter_def writers_def row_of_def upt_conv_Cons)










section \<open>The claims\<close>

subsection \<open>C1\<close>

text \<open>
  Claim C1. For every state, every key \<open>k\<close> bound to a tensor and every list \<open>ids\<close> of
  indices in range for it, \<open>read(k, ids)\<close> returns a tensor object that did not exist
  before the call. It has one row for each entry of \<open>ids\<close>, and its row \<open>j\<close> is the row
  at index \<open>ids[j]\<close> of the tensor that \<open>read(k)\<close> without \<open>ids\<close> returns; an index that
  occurs twice gives its row twice. The tensors that existed and the dict are as
  before. The new tensor shares its memory with no tensor that existed, and has the
  dtype and the row shape of the stored one.
\<close>

theorem read_ids_gathers_rows:
  assumes "lookup s k = Some (PyTensor a)"
    and "list_all (in_range (length (tensors s a))) ids"
  shows "\<exists>r s'. read s k (Some ids) = (Inr (PyTensor r), s') \<and>
           read s k None = (Inr (PyTensor a), s) \<and>
           \<not> allocated s r \<and> allocated s' r \<and>
           length (tensors s' r) = length ids \<and>
           (\<forall>j < length ids.
              tensors s' r ! j = tensors s a ! row_of (length (tensors s a)) (ids ! j)) \<and>
           (\<forall>a'. allocated s a' \<longrightarrow> tensors s' a' = tensors s a') \<and>
           feature_dict s' = feature_dict s \<and>
           (\<forall>a'. allocated s a' \<longrightarrow> memory s' a' \<noteq> memory s' r) \<and>
           dtype_of s' r = dtype_of s a \<and> row_shape s' r = row_shape s a"
proof -
  have "memory s a' \<noteq> new_memory s" if "a' < fresh s" for a'
    using new_memory_fresh [OF that] by simp
  then show ?thesis
    using assms(1) read_ids_tensor [OF assms]
    by (simp add: allocated_def read_def new_tensor_def)
qed

theorem read_ids_gathers_rows_witness:
  "lookup example_store ''user'' = Some (PyTensor 0) \<and>
   list_all (in_range (length (tensors example_store 0))) [3, 0, 3, -1] \<and>
   fst (read example_store ''user'' (Some [3, 0, 3, -1])) = Inr (PyTensor 9) \<and>
   tensors (snd (read example_store ''user'' (Some [3, 0, 3, -1]))) 9 = [[3], [0], [3], [4]]"
proof -
  have r: "list_all (in_range (length (tensors example_store 0))) [3, 0, 3, -1]"
    by (simp add: in_range_def ex_fields)
  have c: "fst (read example_store ''user'' (Some [3, 0, 3, -1])) = Inr (PyTensor 9) \<and>
    tensors (snd (read example_store ''user'' (Some [3, 0, 3, -1]))) 9 = [[3], [0], [3], [4]]"
    by (simp add: read_ids_tensor [OF ex_user r] new_tensor_def) (simp add: ex_fields row_of_def)
  show ?thesis using ex_user r c read_ids_gathers_rows [OF ex_user r] by simp
qed

subsection \<open>C2\<close>




subsection \<open>C3\<close>




subsection \<open>C4\<close>

text \<open>
  Claim C4. For every state, every key \<open>k\<close> of the dict and every object \<open>val\<close> (a tensor
  of any number of rows, whatever was stored before), \<open>update(k, val)\<close> without \<open>ids\<close>
  returns normally and binds \<open>k\<close> to \<open>val\<close>: a following \<open>read(k)\<close> without \<open>ids\<close>
  returns exactly \<open>val\<close>, the same object. No tensor object is touched.
\<close>

theorem update_whole_then_read:
  assumes "KStr k \<in> keys s"
  shows "fst (update s k val None) = Inr () \<and>
         lookup (snd (update s k val None)) k = Some val \<and>
         read (snd (update s k val None)) k None = (Inr val, snd (update s k val None)) \<and>
         tensors (snd (update s k val None)) = tensors s"
  using assms lookup_None_iff [of s k]
  by (auto simp: update_def read_def lookup_def map_of_dict_setitem split: option.splits)

theorem update_whole_then_read_witness:
  "KStr ''user'' \<in> keys example_store \<and>
   fst (update example_store ''user'' (PyTensor 2) None) = Inr () \<and>
   fst (read (snd (update example_store ''user'' (PyTensor 2) None)) ''user'' None)
     = Inr (PyTensor 2) \<and>
   length (tensors example_store 2) \<noteq> length (tensors example_store 0)"
proof -
  have k: "KStr ''user'' \<in> keys example_store" by (simp add: keys_def example_store_def)
  show ?thesis using k update_whole_then_read [OF k, of "PyTensor 2"]
    by (simp add: example_store_def)
qed

subsection \<open>C5\<close>

text \<open>
  Claim C5. \<open>read(k, ids)\<close> raises \<open>KeyNotFound\<close> exactly when \<open>k\<close> is not a key of the
  dict, whatever \<open>ids\<close> is, and \<open>update(k, val, ids)\<close> raises \<open>KeyNotFound\<close> exactly when
  \<open>k\<close> is not a key of the dict, whatever \<open>val\<close> and \<open>ids\<close> are.
\<close>

theorem key_not_found_iff:
  "(fst (read s k ids) = Inl KeyNotFound \<longleftrightarrow> KStr k \<notin> keys s) \<and>
   (fst (update s k val ids') = Inl KeyNotFound \<longleftrightarrow> KStr k \<notin> keys s)"
proof (cases "lookup s k")
  case None
  then show ?thesis
    using lookup_None_iff [of s k] by (simp add: read_absent update_absent)
next
  case (Some x)
  then show ?thesis
    using lookup_None_iff [of s k] read_present [of s k x ids] update_present [of s k x val ids']
    by simp
qed

theorem key_not_found_iff_witness:
  "fst (read example_store ''paper'' (Some [0])) = Inl KeyNotFound \<and>
   fst (update example_store ''paper'' (PyTensor 2) None) = Inl KeyNotFound \<and>
   fst (read example_store ''user'' (Some [7])) \<noteq> Inl KeyNotFound \<and>
   fst (update example_store ''user'' (PyTensor 3) (Some [0, 1])) \<noteq> Inl KeyNotFound"
  using key_not_found_iff [of example_store "''paper''" "Some [0]" "PyTensor 2" None]
    key_not_found_iff [of example_store "''user''" "Some [7]" "PyTensor 3" "Some [0, 1]"]
  by (simp add: keys_def example_store_def)

subsection \<open>C6\<close>

text \<open>
  Claim C6. For every state, every key \<open>k\<close> of the dict, every index list \<open>ids\<close> and every
  tensor \<open>val\<close> whose number of rows differs from the length of \<open>ids\<close>,
  \<open>update(k, val, ids)\<close> raises \<open>ShapeMismatch\<close> and the state after the call is the
  state before it: the dict and every tensor object are as they were.
\<close>

theorem update_shape_mismatch:
  assumes "KStr k \<in> keys s" and "length (tensors s b) \<noteq> length ids"
  shows "update s k (PyTensor b) (Some ids) = (Inl ShapeMismatch, s)"
  using assms lookup_None_iff [of s k] by (auto simp: update_def split: option.splits)

theorem update_shape_mismatch_witness:
  "KStr ''user'' \<in> keys example_store \<and>
   length (tensors example_store 2) \<noteq> length [0, 1 :: int] \<and>
   update example_store ''user'' (PyTensor 2) (Some [0, 1]) = (Inl ShapeMismatch, example_store)"
proof -
  have k: "KStr ''user'' \<in> keys example_store" by (simp add: keys_def example_store_def)
  have l: "length (tensors example_store 2) \<noteq> length [0, 1 :: int]"
    by (simp add: example_store_def)
  show ?thesis using k l update_shape_mismatch [OF k l] by simp
qed

subsection \<open>C7\<close>

text \<open>
  Claim C7. \<open>__init__\<close> raises \<open>TypeMismatch\<close> when its argument is not a dict, and, for
  a dict, exactly when some key is not a \<open>str\<close> or some value is not a tensor; it
  succeeds, keeping the dict, exactly when every key is a \<open>str\<close> and every value a
  tensor.
\<close>

theorem init_type_check:
  "init (PyOther x) = Inl TypeMismatch \<and>
   (init (PyDict kvs) = Inl TypeMismatch \<longleftrightarrow>
      (\<exists>k \<in> fst ` set kvs. \<not> is_str k) \<or> (\<exists>v \<in> snd ` set kvs. \<not> is_tensor v)) \<and>
   (init (PyDict kvs) = Inr kvs \<longleftrightarrow>
      (\<forall>k \<in> fst ` set kvs. is_str k) \<and> (\<forall>v \<in> snd ` set kvs. is_tensor v))"
  by (auto simp: init_def check_items_ok list_all_iff)

theorem init_type_check_witness:
  "init (PyOther (PyInt 3)) = Inl TypeMismatch \<and>
   init (PyDict [(KStr ''user'', PyTensor 0), (KInt 7, PyTensor 1)]) = Inl TypeMismatch \<and>
   init (PyDict [(KStr ''user'', PyTensor 0), (KStr ''item'', PyNone)]) = Inl TypeMismatch \<and>
   init (PyDict [(KStr ''user'', PyTensor 0), (KStr ''item'', PyTensor 1)])
     = Inr [(KStr ''user'', PyTensor 0), (KStr ''item'', PyTensor 1)]"
  using init_type_check [of "PyInt 3" "[(KStr ''user'', PyTensor 0), (KInt 7, PyTensor 1)]"]
    init_type_check [of "PyInt 3" "[(KStr ''user'', PyTensor 0), (KStr ''item'', PyNone)]"]
    init_type_check [of "PyInt 3" "[(KStr ''user'', PyTensor 0), (KStr ''item'', PyTensor 1)]"]
  by (simp add: is_str_def is_tensor_def)

subsection \<open>C8\<close>

text \<open>
  Claim C8. For every state, every key \<open>k\<close> bound to a tensor and every index list \<open>ids\<close>
  with at least one index out of range for the rows of that tensor, \<open>read(k, ids)\<close>
  raises \<open>IndexOutOfBounds\<close> (and allocates nothing).
\<close>

theorem read_out_of_range:
  assumes "lookup s k = Some (PyTensor a)" and "i \<in> set ids"
    and "\<not> in_range (length (tensors s a)) i"
  shows "read s k (Some ids) = (Inl IndexOutOfBounds, s)"
proof -
  from assms(2,3) have "\<not> list_all (in_range (length (tensors s a))) ids"
    by (auto simp: list_all_iff)
  then have "index_rows (tensors s a) ids = Inl IndexOutOfBounds" by (rule index_rows_fail)
  with assms(1) show ?thesis by (simp add: read_def getitem_def)
qed

theorem read_out_of_range_witness:
  "lookup example_store ''user'' = Some (PyTensor 0) \<and> (5::int) \<in> set [0, 5] \<and>
   \<not> in_range (length (tensors example_store 0)) 5 \<and>
   read example_store ''user'' (Some [0, 5]) = (Inl IndexOutOfBounds, example_store)"
proof -
  have l: "lookup example_store ''user'' = Some (PyTensor 0)"
    by (simp add: lookup_def example_store_def)
  have m: "(5::int) \<in> set [0, 5]" by simp
  have r: "\<not> in_range (length (tensors example_store 0)) 5"
    by (simp add: in_range_def example_store_def)
  show ?thesis using l m r read_out_of_range [OF l m r] by simp
qed

subsection \<open>C9\<close>

text \<open>
  Claim C9, amended. No \<open>read\<close> and no \<open>update\<close> changes the set of keys. An \<open>update\<close> of
  \<open>k\<close> that returns normally leaves every other key bound to the object it was bound
  to, and leaves memory, dtype and row shape of every tensor object as they were.
  Without \<open>ids\<close> it changes the rows of no tensor object. With \<open>ids\<close> it changes the rows
  of no tensor object that lies in other memory than the one bound to \<open>k\<close>, and of the
  one bound to \<open>k\<close> no row but those that an entry of \<open>ids\<close> refers to. So the array
  under another key is unchanged unless it shares its memory with the array under \<open>k\<close>.
\<close>

theorem update_frame:
  assumes "update s k val ids = (Inr (), s')"
  shows "keys s' = keys s \<and> keys (snd (read s k' ids')) = keys s \<and>
         keys (snd (update s k' val' ids')) = keys s \<and>
         (k' \<noteq> k \<longrightarrow> lookup s' k' = lookup s k') \<and>
         memory s' = memory s \<and> dtype_of s' = dtype_of s \<and> row_shape s' = row_shape s \<and>
         (ids = None \<longrightarrow> tensors s' = tensors s) \<and>
         (\<forall>is a. ids = Some is \<and> lookup s k = Some (PyTensor a) \<longrightarrow>
            feature_dict s' = feature_dict s \<and>
            (\<forall>a'. memory s a' \<noteq> memory s a \<longrightarrow> tensors s' a' = tensors s a') \<and>
            (\<forall>j < length (tensors s a).
               (\<forall>i \<in> set is. row_of (length (tensors s a)) i \<noteq> j) \<longrightarrow>
               tensors s' a ! j = tensors s a ! j))"
proof -
  have k1: "keys s' = keys s" using update_keys [of s k val ids] assms by simp
  have fd: "feature_dict s' = feature_dict s" if "ids = Some is" for "is"
  proof -
    from assms that obtain x b where "setitem s x is b = (Inr (), s')"
      by (auto simp: update_def split: option.splits pyval.splits if_splits)
    then have "s' = snd (setitem s x is b)" by simp
    then show ?thesis by (simp add: setitem_feature_dict)
  qed
  have l: "lookup s' k' = lookup s k'" if "k' \<noteq> k"
  proof (cases ids)
    case None
    with assms that show ?thesis
      by (auto simp: update_def lookup_def map_of_dict_setitem split: option.splits)
  next
    case (Some "is")
    from fd [OF this] show ?thesis by (simp add: lookup_def)
  qed
  have n: "tensors s' = tensors s" if "ids = None"
    using assms that by (auto simp: update_def split: option.splits)
  have w: "\<exists>vs. s' = write_rows s a (scatter (winner s) (tensors s a) is vs)"
    if "ids = Some is" "lookup s k = Some (PyTensor a)" for "is" a
  proof -
    from assms that obtain b where "setitem s (PyTensor a) is b = (Inr (), s')"
      by (auto simp: update_def split: pyval.splits if_splits)
    then show ?thesis by (rule setitem_success)
  qed
  have attrs: "memory s' = memory s \<and> dtype_of s' = dtype_of s \<and> row_shape s' = row_shape s"
  proof (cases ids)
    case None
    with assms show ?thesis by (auto simp: update_def split: option.splits)
  next
    case (Some "is")
    with assms obtain x b where "lookup s k = Some x" "setitem s x is b = (Inr (), s')"
      by (auto simp: update_def split: option.splits pyval.splits if_splits)
    then show ?thesis
      by (auto simp: setitem_def write_rows_def split: pyval.splits option.splits if_splits prod.splits)
  qed
  have f: "feature_dict s' = feature_dict s \<and>
           (\<forall>a'. memory s a' \<noteq> memory s a \<longrightarrow> tensors s' a' = tensors s a') \<and>
           (\<forall>j < length (tensors s a).
               (\<forall>i \<in> set is. row_of (length (tensors s a)) i \<noteq> j) \<longrightarrow>
               tensors s' a ! j = tensors s a ! j)"
    if "ids = Some is" "lookup s k = Some (PyTensor a)" for "is" a
  proof -
    from w [OF that] obtain vs where
      "s' = write_rows s a (scatter (winner s) (tensors s a) is vs)" by blast
    then show ?thesis using fd [OF that(1)]
      by (simp add: write_rows_def scatter_untouched)
  qed
  show ?thesis using k1 l n f attrs by (simp add: read_keys update_keys)
qed

theorem update_frame_witness:
  "update example_store ''user'' (PyTensor 2) (Some [0, 1, 2])
     = (Inr (), write_rows example_store 0 [[1], [1], [1], [3], [4]]) \<and>
   lookup (write_rows example_store 0 [[1], [1], [1], [3], [4]]) ''item''
     = lookup example_store ''item'' \<and>
   keys (write_rows example_store 0 [[1], [1], [1], [3], [4]]) = keys example_store \<and>
   tensors (write_rows example_store 0 [[1], [1], [1], [3], [4]]) 1 = tensors example_store 1 \<and>
   tensors (write_rows example_store 0 [[1], [1], [1], [3], [4]]) 0 ! 3
     = tensors example_store 0 ! 3"
proof -
  show ?thesis
    using docstring_update_user update_frame [OF docstring_update_user, of "''item''" None PyNone]
    by (simp add: ex_fields write_rows_def keys_def lookup_def)
qed

text \<open>
  Claim C9 as written promises that the array under every other key is unchanged. In
  the store where \<open>"a"\<close> and \<open>"b"\<close> are bound to one tensor object and \<open>"c"\<close> to another
  object that is a view of the same memory, an indexed \<open>update\<close> of \<open>"a"\<close> changes the
  arrays that \<open>"b"\<close> and \<open>"c"\<close> hold.
\<close>

theorem update_shared_counterexample:
  "fst (update shared_store ''a'' (PyTensor 1) (Some [0, 1, 2])) = Inr () \<and>
   ''b'' \<noteq> ''a'' \<and>
   lookup shared_store ''b'' = Some (PyTensor 0) \<and>
   lookup (snd (update shared_store ''a'' (PyTensor 1) (Some [0, 1, 2]))) ''b'' = Some (PyTensor 0) \<and>
   tensors shared_store 0 = [[0], [1], [2], [3], [4]] \<and>
   tensors (snd (update shared_store ''a'' (PyTensor 1) (Some [0, 1, 2]))) 0
     = [[9], [9], [9], [3], [4]] \<and>
   ''c'' \<noteq> ''a'' \<and>
   lookup shared_store ''c'' = Some (PyTensor 2) \<and>
   lookup (snd (update shared_store ''a'' (PyTensor 1) (Some [0, 1, 2]))) ''c'' = Some (PyTensor 2) \<and>
   tensors shared_store 2 = [[0], [1], [2], [3], [4]] \<and>
   tensors (snd (update shared_store ''a'' (PyTensor 1) (Some [0, 1, 2]))) 2
     = [[9], [9], [9], [3], [4]]"
  by (simp add: update_def setitem_def overlap_def value_rows_def index_put_def write_rows_def
      lookup_def sh_fields in_range_def scatter_def writers_def row_of_def upt_conv_Cons)

subsection \<open>C10\<close>

text \<open>
  Claim C10. \<open>update\<close> does not keep the invariant of \<open>__init__\<close>: for every key \<open>k\<close> of
  the dict and every object \<open>val\<close> that is not a tensor, \<open>update(k, val)\<close> without \<open>ids\<close>
  returns normally, a following \<open>read(k)\<close> returns \<open>val\<close>, and the dict then has a
  value that is not a tensor.
\<close>

theorem update_breaks_tensor_invariant:
  assumes "KStr k \<in> keys s" and "\<not> is_tensor val"
  shows "fst (update s k val None) = Inr () \<and>
         fst (read (snd (update s k val None)) k None) = Inr val \<and>
         \<not> values_are_tensors (snd (update s k val None))"
proof -
  from assms(1) obtain x where x: "lookup s k = Some x"
    using lookup_None_iff [of s k] by auto
  let ?s' = "s\<lparr>feature_dict := dict_setitem (feature_dict s) (KStr k) val\<rparr>"
  have u: "update s k val None = (Inr (), ?s')" using x by (simp add: update_def)
  have l: "lookup ?s' k = Some val" by (simp add: lookup_def map_of_dict_setitem)
  then have "(KStr k, val) \<in> set (feature_dict ?s')"
    by (simp add: lookup_def map_of_SomeD)
  with assms(2) have "\<not> values_are_tensors ?s'"
    by (force simp: values_are_tensors_def list_all_iff)
  with u l show ?thesis by (simp add: read_def)
qed

theorem update_breaks_tensor_invariant_witness:
  "KStr ''user'' \<in> keys example_store \<and> \<not> is_tensor PyNone \<and>
   values_are_tensors example_store \<and>
   init (PyDict (feature_dict example_store)) = Inr (feature_dict example_store) \<and>
   fst (update example_store ''user'' PyNone None) = Inr () \<and>
   fst (read (snd (update example_store ''user'' PyNone None)) ''user'' None) = Inr PyNone \<and>
   \<not> values_are_tensors (snd (update example_store ''user'' PyNone None))"
proof -
  have k: "KStr ''user'' \<in> keys example_store" by (simp add: keys_def example_store_def)
  have t: "\<not> is_tensor PyNone" by (simp add: is_tensor_def)
  have v: "values_are_tensors example_store"
    by (simp add: values_are_tensors_def example_store_def is_tensor_def)
  have i: "init (PyDict (feature_dict example_store)) = Inr (feature_dict example_store)"
    by (simp add: init_def example_store_def is_tensor_def is_str_def)
  show ?thesis using k t v i update_breaks_tensor_invariant [OF k t] by simp
qed

end
